theory Spec2Isabelle
  imports Complex_Main "HOL-Library.AList" "HOL-Library.Log_Nat"
begin

section \<open>The Earth Engine layer: data model\<close>

text \<open>
  A shallow embedding of \<^verbatim>\<open>src/modules/earthengine-layers/src/earth-engine-layer.js\<close>.
  JavaScript objects are referred to by reference; \<open>===\<close> on two objects compares the
  references, so an object-valued prop is a \<open>ref option\<close> (\<open>None\<close> is \<open>null\<close>)
  and what a reference holds is looked up in the \<open>world\<close>. A finite JavaScript number
  is the rational it denotes; where the code computes with numbers, every result is
  rounded to the nearest double (\<open>rnd\<close> below).
\<close>

type_synonym ref = nat

datatype jsval =
    JNum rat
  | JStr string
  | JBool bool
  | JArr "jsval list"
  | Rectangle "rat list" string bool

text \<open>An object literal: its own enumerable keys in insertion order.\<close>

type_synonym jsobj = "(string \<times> jsval) list"

text \<open>
  \<open>Error m\<close> is \<^verbatim>\<open>throw new Error(m)\<close> in the layer's own code; \<open>Rejected r\<close> is the
  rejection of an awaited promise of a collaborator (the EE API, the image loader,
  \<^verbatim>\<open>createImageBitmap\<close>) with reason \<open>r\<close>.
\<close>

datatype error = Error string | Rejected string

record image =
  img_url :: string
  img_width :: nat
  img_height :: nat

text \<open>
  What a tile holds: an image as the loader decoded it, or the bitmap
  \<^verbatim>\<open>createImageBitmap(image, sx, sy, sw, sh)\<close>, the \<open>sw \<times> sh\<close> crop of \<open>image\<close> at \<open>(sx, sy)\<close>.
\<close>

datatype picture = Decoded image | ImageBitmap image nat nat nat nat

fun picture_width :: "picture \<Rightarrow> nat" where
  "picture_width (Decoded i) = img_width i"
| "picture_width (ImageBitmap i sx sy sw sh) = sw"

fun picture_height :: "picture \<Rightarrow> nat" where
  "picture_height (Decoded i) = img_height i"
| "picture_height (ImageBitmap i sx sy sw sh) = sh"

record bbox =
  west :: rat
  north :: rat
  east :: rat
  south :: rat

record tile =
  tile_x :: int
  tile_y :: int
  tile_z :: int
  tile_bbox :: bbox

text \<open>
  The \<^verbatim>\<open>eeObject\<close> prop: \<open>null\<close>, a JSON string, an array (its reference and length) or
  any other object. HOL equality on this type is \<open>===\<close>: strings by value, objects by
  reference.
\<close>

datatype ee_prop = PNull | PString string | PArray ref nat | PObject ref

record props =
  token :: "string option"
  eeObject :: ee_prop
  visParams :: "ref option"
  animate :: bool
  animationSpeed :: rat

record changeFlags =
  dataChanged :: bool

datatype render_method = Filmstrip | ImageTiles

text \<open>What \<^verbatim>\<open>Math.floor\<close> gives: an integer, or \<open>NaN\<close>.\<close>

datatype index = Index int | NaN

text \<open>\<^verbatim>\<open>this.state\<close>; a field that was never set is \<open>None\<close>.\<close>

record layer_state =
  s_eeObject :: "ref option"
  mapid :: "string option"
  urlFormat :: "string option"
  renderMethod :: "render_method option"
  nFrames :: "rat option"
  frame :: "index option"

text \<open>The calls that leave the layer, in the order they are made.\<close>

datatype call =
    Initialize string
  | GetMap ref "ref option"
  | GetFilmstripThumbURL "ref option" jsobj
  | Load string bool
  | CreateImageBitmap image nat nat nat nat

text \<open>
  The module-level \<^verbatim>\<open>accessToken\<close>, the layer's state and the trace of calls made so
  far.
\<close>

record sys =
  accessToken :: "string option"
  layer :: layer_state
  trace :: "call list"

text \<open>
  The collaborators, none of which is part of the layer: the JavaScript heap
  (\<open>vis_fields\<close>, the capabilities of an object), the EE library and API (behind
  \<^verbatim>\<open>promisifyEEMethod\<close> and \<^verbatim>\<open>eeApi\<close>), the image loader, \<^verbatim>\<open>createImageBitmap\<close> and the
  clock. A call that fails gives the reason of its rejection.
\<close>

record world =
  vis_fields :: "ref \<Rightarrow> jsobj"
  hasGetMap :: "ref \<Rightarrow> bool"
  hasGetFilmstripThumbURL :: "ref \<Rightarrow> bool"
  fromJSON :: "string \<Rightarrow> string + ref"
  ImageCollection :: "ref \<Rightarrow> string + ref"
  initialize :: "string \<Rightarrow> string option"
  getMap :: "ref \<Rightarrow> ref option \<Rightarrow> string + (string \<times> string)"
  getFilmstripThumbURL :: "ref option \<Rightarrow> jsobj \<Rightarrow> string + string"
  load :: "string \<Rightarrow> bool \<Rightarrow> string + image"
  createImageBitmap :: "image \<Rightarrow> nat \<Rightarrow> nat \<Rightarrow> nat \<Rightarrow> nat \<Rightarrow> string option"
  now :: nat

definition called :: "call \<Rightarrow> sys \<Rightarrow> sys" where
  "called c s = s\<lparr>trace := trace s @ [c]\<rparr>"

definition setState :: "(layer_state \<Rightarrow> layer_state) \<Rightarrow> sys \<Rightarrow> sys" where
  "setState f s = s\<lparr>layer := f (layer s)\<rparr>"

section \<open>Session initialisation\<close>

text \<open>
  \<^verbatim>\<open>_updateToken\<close>: nothing to do for a falsy token (\<open>null\<close> or the empty string) or
  the token already active; otherwise \<^verbatim>\<open>eeApi.initialize\<close> is awaited, and the
  assignment to \<^verbatim>\<open>accessToken\<close> comes after it.
\<close>

definition updateToken :: "world \<Rightarrow> props \<Rightarrow> sys \<Rightarrow> (error + unit) \<times> sys" where
  "updateToken w p s =
     (case token p of
        None \<Rightarrow> (Inr (), s)
      | Some t \<Rightarrow>
          if t = [] \<or> Some t = accessToken s then (Inr (), s)
          else
            (let s1 = called (Initialize t) s in
             case initialize w t of
               Some r \<Rightarrow> (Inl (Rejected r), s1)
             | None \<Rightarrow> (Inr (), s1\<lparr>accessToken := Some t\<rparr>)))"

section \<open>Normalising the object handle\<close>

text \<open>
  \<^verbatim>\<open>_updateEEObject\<close>: a string is deserialised, anything else is taken as it is; a
  truthy handle is wrapped in \<^verbatim>\<open>ee.ImageCollection\<close> when \<open>animate\<close> is set; an empty
  array gives \<open>null\<close>. The two library calls are synchronous and may throw.
\<close>

definition updateEEObject :: "world \<Rightarrow> props \<Rightarrow> props \<Rightarrow> sys \<Rightarrow> (error + unit) \<times> sys" where
  "updateEEObject w p oldProps s =
     (if eeObject p = eeObject oldProps then (Inr (), s)
      else
        case (case eeObject p of
                PString j \<Rightarrow> (case fromJSON w j of Inl r \<Rightarrow> Inl (Error r) | Inr h \<Rightarrow> Inr (Some h))
              | PNull \<Rightarrow> Inr None
              | PArray r n \<Rightarrow> Inr (Some r)
              | PObject r \<Rightarrow> Inr (Some r)) of
          Inl e \<Rightarrow> (Inl e, s)
        | Inr obj \<Rightarrow>
            (case (case obj of
                     Some h \<Rightarrow>
                       if animate p
                       then (case ImageCollection w h of Inl r \<Rightarrow> Inl (Error r) | Inr c \<Rightarrow> Inr (Some c))
                       else Inr (Some h)
                   | None \<Rightarrow> Inr None) of
               Inl e \<Rightarrow> (Inl e, s)
             | Inr obj' \<Rightarrow>
                 (let obj'' = (case eeObject p of PArray r n \<Rightarrow> if n = 0 then None else obj' | _ \<Rightarrow> obj')
                  in (Inr (), setState (\<lambda>l. l\<lparr>s_eeObject := obj''\<rparr>) s))))"

section \<open>Resolving the render descriptor\<close>

text \<open>
  \<^verbatim>\<open>_updateEEVisParams\<close>. The first guard compares the two \<^verbatim>\<open>visParams\<close> with \<open>===\<close>
  and reads \<^verbatim>\<open>changeFlags.dataChanged\<close>; the second returns when the state holds no
  handle; the capability checks throw; then \<^verbatim>\<open>getMap\<close> is awaited and its result is
  written into the state together with the render method.
\<close>

definition updateEEVisParams ::
  "world \<Rightarrow> props \<Rightarrow> props \<Rightarrow> changeFlags \<Rightarrow> sys \<Rightarrow> (error + unit) \<times> sys" where
  "updateEEVisParams w p oldProps flags s =
     (if visParams p = visParams oldProps \<and> \<not> dataChanged flags then (Inr (), s)
      else
        case s_eeObject (layer s) of
          None \<Rightarrow> (Inr (), s)
        | Some obj \<Rightarrow>
            if \<not> hasGetMap w obj then (Inl (Error ''eeObject must have a getMap() method''), s)
            else if animate p \<and> \<not> hasGetFilmstripThumbURL w obj
            then (Inl (Error ''eeObject must have a getFilmstripThumbURL method to animate.''), s)
            else
              (let method = (if animate p then Filmstrip else ImageTiles);
                   s1 = called (GetMap obj (visParams p)) s
               in case getMap w obj (visParams p) of
                    Inl r \<Rightarrow> (Inl (Rejected r), s1)
                  | Inr (m, u) \<Rightarrow>
                      (Inr (), setState (\<lambda>l. l\<lparr>mapid := Some m, urlFormat := Some u,
                                                renderMethod := Some method\<rparr>) s1)))"

section \<open>JavaScript's double arithmetic\<close>

text \<open>
  A JavaScript number is an IEEE 754 double: a multiple of a power of two with a
  significand below \<open>2^53\<close> and an exponent of at least \<open>-1074\<close>. \<open>ilog2 x\<close> is the
  binary exponent of a positive \<open>x\<close> (\<open>2 ^ ilog2 x \<le> x < 2 ^ (ilog2 x + 1)\<close>), \<open>ulp x\<close> the
  distance of the doubles around \<open>x\<close>, and \<open>rnd x\<close> the double nearest to \<open>x\<close>, ties
  going to the even significand. A result of magnitude \<open>2^1024\<close> or more is an infinity.
\<close>

definition pow2 :: "int \<Rightarrow> rat" where
  "pow2 k = power_int 2 k"

definition ilog2 :: "rat \<Rightarrow> int" where
  "ilog2 x =
     (case quotient_of x of (a, b) \<Rightarrow>
        (let e = bitlen a - bitlen b in if pow2 e \<le> x then e else e - 1))"

definition expo :: "rat \<Rightarrow> int" where
  "expo x = max (ilog2 \<bar>x\<bar>) (- 1022) - 52"

definition ulp :: "rat \<Rightarrow> rat" where
  "ulp x = pow2 (expo x)"

definition round_even :: "rat \<Rightarrow> int" where
  "round_even q =
     (let f = \<lfloor>q\<rfloor>; d = q - of_int f
      in if d < 1 / 2 then f else if 1 / 2 < d then f + 1 else if even f then f else f + 1)"

definition rnd :: "rat \<Rightarrow> rat" where
  "rnd x = (if x = 0 then 0 else of_int (round_even (x / ulp x)) * ulp x)"

text \<open>
  \<open>x\<close> is a finite double when it is a multiple of the spacing of the doubles at \<open>x\<close>.
\<close>

definition is_double :: "rat \<Rightarrow> bool" where
  "is_double x \<longleftrightarrow> (\<exists>M. x = of_int M * ulp x)"

text \<open>
  JavaScript's \<open>%\<close> on finite numbers with a divisor that is not zero: the remainder of
  the division truncated towards zero (it has the sign of the dividend). The result is
  exact.
\<close>

definition js_rem :: "rat \<Rightarrow> rat \<Rightarrow> rat" where
  "js_rem a b = a - b * of_int (if 0 \<le> a / b then \<lfloor>a / b\<rfloor> else \<lceil>a / b\<rceil>)"

section \<open>The animation clock\<close>

text \<open>
  \<^verbatim>\<open>_animate\<close>. \<^verbatim>\<open>!nFrames\<close> holds for an unset \<open>nFrames\<close> and for \<open>0\<close>.
  \<^verbatim>\<open>Date.now()\<close> is a number of milliseconds, \<open>now\<close>. The two divisions and the
  product round; the special values are written out:
  \<^item> an infinite timestamp has the remainder \<open>NaN\<close>, and so is the frame;
  \<^item> with \<open>animationSpeed = 0\<close>, or when the division overflows, the loop time is
    infinite, the remainder is the timestamp, the phase is zero and the frame is \<open>0\<close>;
  \<^item> a loop time rounded to zero has the remainder \<open>NaN\<close>.
  \<open>nFrames\<close> is a finite number and the phase lies between \<open>-1\<close> and \<open>1\<close>, so the
  product is finite.
\<close>

definition animate_step :: "world \<Rightarrow> props \<Rightarrow> layer_state \<Rightarrow> layer_state" where
  "animate_step w p l =
     (case nFrames l of
        None \<Rightarrow> l
      | Some n \<Rightarrow>
          if n = 0 then l
          else
            (let timestamp = rnd (of_nat (now w) / 1000) in
             if pow2 1024 \<le> timestamp then l\<lparr>frame := Some NaN\<rparr>
             else if animationSpeed p = 0 then l\<lparr>frame := Some (Index 0)\<rparr>
             else
               (let loopTime = rnd (n / animationSpeed p) in
                if pow2 1024 \<le> \<bar>loopTime\<bar> then l\<lparr>frame := Some (Index 0)\<rparr>
                else if loopTime = 0 then l\<lparr>frame := Some NaN\<rparr>
                else l\<lparr>frame :=
                       Some (Index \<lfloor>rnd (rnd (js_rem timestamp loopTime / loopTime) * n)\<rfloor>)\<rparr>)))"

section \<open>One property-change notification\<close>

text \<open>
  \<^verbatim>\<open>updateState\<close>: the four steps in order; an error of one step ends the cycle with
  the state as that step left it.
\<close>

definition updateState ::
  "world \<Rightarrow> props \<Rightarrow> props \<Rightarrow> changeFlags \<Rightarrow> sys \<Rightarrow> (error + unit) \<times> sys" where
  "updateState w p oldProps flags s =
     (case updateToken w p s of
        (Inl e, s1) \<Rightarrow> (Inl e, s1)
      | (Inr u1, s1) \<Rightarrow>
          (case updateEEObject w p oldProps s1 of
             (Inl e, s2) \<Rightarrow> (Inl e, s2)
           | (Inr u2, s2) \<Rightarrow>
               (case updateEEVisParams w p oldProps flags s2 of
                  (Inl e, s3) \<Rightarrow> (Inl e, s3)
                | (Inr u3, s3) \<Rightarrow> (Inr (), setState (animate_step w p) s3))))"

section \<open>Fetching tiles\<close>

text \<open>\<^verbatim>\<open>String(n)\<close> for an integer \<open>n\<close>: decimal digits, a minus sign when negative.\<close>

definition digit_char :: "nat \<Rightarrow> char" where
  "digit_char d = ''0123456789'' ! d"

function nat_to_string :: "nat \<Rightarrow> string" where
  "nat_to_string n =
     (if n < 10 then [digit_char n] else nat_to_string (n div 10) @ [digit_char (n mod 10)])"
  by pat_completeness auto
termination
  by (relation "measure (\<lambda>n. n)") auto

declare nat_to_string.simps [simp del]

definition number_to_string :: "int \<Rightarrow> string" where
  "number_to_string i = (if i < 0 then CHR ''-'' # nat_to_string (nat (- i)) else nat_to_string (nat i))"

text \<open>
  \<^verbatim>\<open>s.replace(pat, rep)\<close> with a string pattern: the leftmost occurrence of \<open>pat\<close> is
  replaced, the rest of \<open>s\<close> is kept. (The replacements used here are numbers and hold
  no \<open>$\<close>.)
\<close>

fun js_replace :: "string \<Rightarrow> string \<Rightarrow> string \<Rightarrow> string" where
  "js_replace pat rep [] = (if pat = [] then rep else [])"
| "js_replace pat rep (c # cs) =
     (if take (length pat) (c # cs) = pat then rep @ drop (length pat) (c # cs)
      else c # js_replace pat rep cs)"

definition image_url :: "string \<Rightarrow> int \<Rightarrow> int \<Rightarrow> int \<Rightarrow> string" where
  "image_url fmt x y z =
     js_replace ''{z}'' (number_to_string z)
       (js_replace ''{y}'' (number_to_string y)
         (js_replace ''{x}'' (number_to_string x) fmt))"

text \<open>
  \<^verbatim>\<open>getImageTileData\<close>: \<open>null\<close> for a falsy \<^verbatim>\<open>urlFormat\<close> (unset or empty), otherwise the
  image of the substituted URL, in a one-element array.
\<close>

definition getImageTileData :: "world \<Rightarrow> tile \<Rightarrow> sys \<Rightarrow> (error + picture list option) \<times> sys" where
  "getImageTileData w t s =
     (case urlFormat (layer s) of
        None \<Rightarrow> (Inr None, s)
      | Some fmt \<Rightarrow>
          if fmt = [] then (Inr None, s)
          else
            (let imageUrl = image_url fmt (tile_x t) (tile_y t) (tile_z t);
                 s1 = called (Load imageUrl False) s
             in case load w imageUrl False of
                  Inl r \<Rightarrow> (Inl (Rejected r), s1)
                | Inr img \<Rightarrow> (Inr (Some [Decoded img]), s1)))"

definition TILE_SIZE :: nat where
  "TILE_SIZE = 256"

text \<open>The object literal \<^verbatim>\<open>{...visParams, dimensions, region, crs}\<close>.\<close>

definition spread :: "world \<Rightarrow> ref option \<Rightarrow> jsobj" where
  "spread w v = (case v of None \<Rightarrow> [] | Some r \<Rightarrow> vis_fields w r)"

definition region_of :: "bbox \<Rightarrow> jsval" where
  "region_of b = Rectangle [west b, south b, east b, north b] ''EPSG:4326'' False"

definition filmArgs :: "world \<Rightarrow> props \<Rightarrow> bbox \<Rightarrow> jsobj" where
  "filmArgs w p b =
     AList.update ''crs'' (JStr ''EPSG:3857'')
       (AList.update ''region'' (region_of b)
         (AList.update ''dimensions'' (JArr [JNum (of_nat TILE_SIZE), JNum (of_nat TILE_SIZE)])
           (spread w (visParams p))))"

text \<open>
  The loop \<^verbatim>\<open>for (let i = 0; i < nFrames; i++)\<close>: the bounds of the slices it pushes,
  from index \<open>i\<close> on.
\<close>

function slices :: "rat \<Rightarrow> nat \<Rightarrow> (nat \<times> nat \<times> nat \<times> nat) list" where
  "slices n i =
     (if of_nat i < n then (0, i * TILE_SIZE, TILE_SIZE, TILE_SIZE) # slices n (i + 1) else [])"
  by pat_completeness auto
termination
proof (relation "measure (\<lambda>(n, i). nat \<lceil>n\<rceil> - i)")
  show "wf (measure (\<lambda>(n, i). nat \<lceil>n\<rceil> - i))"
    by simp
next
  fix n :: rat and i :: nat
  assume "of_nat i < n"
  then have "int i < \<lceil>n\<rceil>"
    by (simp add: less_ceiling_iff)
  then show "((n, i + 1), (n, i)) \<in> measure (\<lambda>(n, i). nat \<lceil>n\<rceil> - i)"
    by simp
qed

declare slices.simps [simp del]

text \<open>\<^verbatim>\<open>Promise.all\<close>: every value in order, or a rejection.\<close>

fun gather :: "(string + 'a) list \<Rightarrow> error + 'a list" where
  "gather [] = Inr []"
| "gather (Inl r # ps) = Inl (Rejected r)"
| "gather (Inr x # ps) = (case gather ps of Inl e \<Rightarrow> Inl e | Inr xs \<Rightarrow> Inr (x # xs))"

definition slice_call :: "image \<Rightarrow> nat \<times> nat \<times> nat \<times> nat \<Rightarrow> call" where
  "slice_call img b = (case b of (sx, sy, sw, sh) \<Rightarrow> CreateImageBitmap img sx sy sw sh)"

definition slice_promise :: "world \<Rightarrow> image \<Rightarrow> nat \<times> nat \<times> nat \<times> nat \<Rightarrow> string + picture" where
  "slice_promise w img b =
     (case b of (sx, sy, sw, sh) \<Rightarrow>
        (case createImageBitmap w img sx sy sw sh of
           Some r \<Rightarrow> Inl r
         | None \<Rightarrow> Inr (ImageBitmap img sx sy sw sh)))"

text \<open>
  \<^verbatim>\<open>getFilmstripTileData\<close>: the thumbnail URL and the image are awaited; the slices
  are started in the loop, \<^verbatim>\<open>nFrames\<close> is written, and the result is the
  \<^verbatim>\<open>Promise.all\<close> of the slices.
\<close>

definition getFilmstripTileData ::
  "world \<Rightarrow> props \<Rightarrow> tile \<Rightarrow> sys \<Rightarrow> (error + picture list option) \<times> sys" where
  "getFilmstripTileData w p t s =
     (let args = filmArgs w p (tile_bbox t);
          s1 = called (GetFilmstripThumbURL (s_eeObject (layer s)) args) s
      in case getFilmstripThumbURL w (s_eeObject (layer s)) args of
           Inl r \<Rightarrow> (Inl (Rejected r), s1)
         | Inr imageUrl \<Rightarrow>
             (let s2 = called (Load imageUrl True) s1
              in case load w imageUrl True of
                   Inl r \<Rightarrow> (Inl (Rejected r), s2)
                 | Inr img \<Rightarrow>
                     (let n = of_nat (img_height img) / of_nat TILE_SIZE;
                          bs = slices n 0;
                          s3 = s2\<lparr>trace := trace s2 @ map (slice_call img) bs\<rparr>;
                          s4 = setState (\<lambda>l. l\<lparr>nFrames := Some n\<rparr>) s3
                      in (case gather (map (slice_promise w img) bs) of
                            Inl e \<Rightarrow> (Inl e, s4)
                          | Inr ps \<Rightarrow> (Inr (Some ps), s4)))))"

definition getTileData ::
  "world \<Rightarrow> props \<Rightarrow> tile \<Rightarrow> sys \<Rightarrow> (error + picture list option) \<times> sys" where
  "getTileData w p t s =
     (if renderMethod (layer s) = Some Filmstrip then getFilmstripTileData w p t s
      else getImageTileData w t s)"

section \<open>The specification's notions\<close>

text \<open>
  Modelled from the spec: \<^verbatim>\<open>deepEqual\<close> of \<^verbatim>\<open>./utils\<close>, which is not among the sources.
  The specification compares visualisation parameters "by deep structural equality (not
  reference)": two references are deeply equal when they hold the same contents.
\<close>

definition deepEqual :: "world \<Rightarrow> ref option \<Rightarrow> ref option \<Rightarrow> bool" where
  "deepEqual w a b =
     (case a of
        None \<Rightarrow> b = None
      | Some x \<Rightarrow> (case b of None \<Rightarrow> False | Some y \<Rightarrow> vis_fields w x = vis_fields w y))"

text \<open>
  Descriptor resolution is skipped: the call returns normally, the state is what it was
  and no call was made (the trace is part of \<open>sys\<close>).
\<close>

definition skipped :: "world \<Rightarrow> props \<Rightarrow> props \<Rightarrow> changeFlags \<Rightarrow> sys \<Rightarrow> bool" where
  "skipped w p oldProps flags s \<longleftrightarrow> updateEEVisParams w p oldProps flags s = (Inr (), s)"

text \<open>
  The specification's rule for one notification: resolution is skipped exactly when the
  visualisation parameters are deeply equal, the \<^verbatim>\<open>eeObject\<close> prop is unchanged and the
  data-changed flag is not set.
\<close>

definition resolution_skipped_as_stated ::
  "world \<Rightarrow> props \<Rightarrow> props \<Rightarrow> changeFlags \<Rightarrow> sys \<Rightarrow> bool" where
  "resolution_skipped_as_stated w p oldProps flags s \<longleftrightarrow>
     (skipped w p oldProps flags s \<longleftrightarrow>
        deepEqual w (visParams p) (visParams oldProps) \<and> eeObject p = eeObject oldProps \<and>
        \<not> dataChanged flags)"


text \<open>
  \<open>s'\<close> is \<open>s\<close> with the first occurrence of \<open>tok\<close> replaced by \<open>rep\<close>, and \<open>s\<close> itself
  when \<open>tok\<close> does not occur.
\<close>

definition first_replaced :: "string \<Rightarrow> string \<Rightarrow> string \<Rightarrow> string \<Rightarrow> bool" where
  "first_replaced tok rep s s' \<longleftrightarrow>
     (\<exists>pre post. s = pre @ tok @ post \<and>
        (\<forall>pre' post'. s = pre' @ tok @ post' \<longrightarrow> length pre \<le> length pre') \<and>
        s' = pre @ rep @ post)
     \<or> ((\<nexists>pre post. s = pre @ tok @ post) \<and> s' = s)"

text \<open>
  The decimal numeral of an integer, as a URL shows a coordinate: a non-empty string of
  digits with no leading zero (the numeral \<open>0\<close> apart), after a minus sign for a negative
  number. \<open>decimal_int s\<close> is the integer that \<open>s\<close> denotes, and \<open>None\<close> when \<open>s\<close> is no
  such numeral.
\<close>

definition is_digit :: "char \<Rightarrow> bool" where
  "is_digit c \<longleftrightarrow> c \<in> set ''0123456789''"

definition decimal_nat :: "string \<Rightarrow> nat option" where
  "decimal_nat s =
     (if s = [] \<or> \<not> list_all is_digit s \<or> (1 < length s \<and> hd s = CHR ''0'') then None
      else Some (foldl (\<lambda>a c. 10 * a + (of_char c - 48)) 0 s))"

definition decimal_int :: "string \<Rightarrow> int option" where
  "decimal_int s =
     (case s of
        [] \<Rightarrow> None
      | c # r \<Rightarrow>
          if c = CHR ''-''
          then (case decimal_nat r of
                  None \<Rightarrow> None
                | Some n \<Rightarrow> if n = 0 then None else Some (- int n))
          else map_option int (decimal_nat s))"

section \<open>Example inputs\<close>

text \<open>
  A world in which every call succeeds but the initialisation with the token
  \<open>''expired''\<close>: references \<open>1\<close> and \<open>2\<close> are two objects with the same contents,
  reference \<open>3\<close> holds keys that the filmstrip request sets itself, and reference \<open>7\<close>
  is the only handle with \<^verbatim>\<open>getFilmstripThumbURL\<close>. The thumbnail is three tiles high.
\<close>

definition example_world :: world where
  "example_world =
     \<lparr>vis_fields = (\<lambda>r. if r = 1 \<or> r = 2 then [(''min'', JNum 0), (''max'', JNum 3000)]
                        else if r = 3 then [(''dimensions'', JStr ''512x512''), (''palette'', JStr ''red''),
                                            (''crs'', JStr ''EPSG:4326'')]
                        else []),
      hasGetMap = (\<lambda>r. True),
      hasGetFilmstripThumbURL = (\<lambda>r. r = 7),
      fromJSON = (\<lambda>j. Inr 5),
      ImageCollection = (\<lambda>r. Inr 7),
      initialize = (\<lambda>t. if t = ''expired'' then Some ''401'' else None),
      getMap = (\<lambda>r v. Inr (if r = 5 then ''map-5'' else ''map-6'', ''https://x/{z}/{x}/{y}.png'')),
      getFilmstripThumbURL = (\<lambda>r a. Inr ''https://thumb/film.png''),
      load = (\<lambda>u b. Inr \<lparr>img_url = u, img_width = 256, img_height = (if b then 768 else 256)\<rparr>),
      createImageBitmap = (\<lambda>img sx sy sw sh. None),
      now = 1500\<rparr>"

text \<open>\<^verbatim>\<open>initializeState\<close> sets \<^verbatim>\<open>this.state = {}\<close>.\<close>

definition empty_state :: layer_state where
  "empty_state = \<lparr>s_eeObject = None, mapid = None, urlFormat = None, renderMethod = None,
                    nFrames = None, frame = None\<rparr>"

definition initial_sys :: sys where
  "initial_sys = \<lparr>accessToken = None, layer = empty_state, trace = []\<rparr>"

definition example_props :: props where
  "example_props = \<lparr>token = Some ''T1'', eeObject = PObject 5, visParams = Some 1, animate = False,
                      animationSpeed = 12\<rparr>"

definition example_tile :: tile where
  "example_tile = \<lparr>tile_x = 3, tile_y = 7, tile_z = 2,
                     tile_bbox = \<lparr>west = 0, north = 45, east = 90, south = 0\<rparr>\<rparr>"

section \<open>Session initialisation: the active token\<close>

text \<open>
  C3. A call whose token is the active one returns with the state as it was and no call
  made. With a different, non-empty token \<^verbatim>\<open>eeApi.initialize\<close> is called once; when it
  succeeds the active token becomes the new one, and when it is rejected the rejection is
  the result and the active token is the previous one. The active token changes only in
  a call that made the initialisation and saw it succeed.
\<close>

theorem updateToken_marker:
  "(token p = accessToken s \<longrightarrow> updateToken w p s = (Inr (), s)) \<and>
   (\<forall>t. token p = Some t \<and> t \<noteq> [] \<and> accessToken s \<noteq> Some t \<and> initialize w t = None \<longrightarrow>
        updateToken w p s = (Inr (), s\<lparr>trace := trace s @ [Initialize t], accessToken := Some t\<rparr>)) \<and>
   (\<forall>t r. token p = Some t \<and> t \<noteq> [] \<and> accessToken s \<noteq> Some t \<and> initialize w t = Some r \<longrightarrow>
        updateToken w p s = (Inl (Rejected r), s\<lparr>trace := trace s @ [Initialize t]\<rparr>)) \<and>
   (accessToken (snd (updateToken w p s)) \<noteq> accessToken s \<longrightarrow>
        (\<exists>t. token p = Some t \<and> initialize w t = None \<and> fst (updateToken w p s) = Inr () \<and>
             trace (snd (updateToken w p s)) = trace s @ [Initialize t]))"
  by (auto simp: updateToken_def called_def Let_def split: option.splits)

theorem updateToken_marker_witness:
  "updateToken example_world example_props (initial_sys\<lparr>accessToken := Some ''T1''\<rparr>)
     = (Inr (), initial_sys\<lparr>accessToken := Some ''T1''\<rparr>) \<and>
   updateToken example_world example_props initial_sys
     = (Inr (), initial_sys\<lparr>trace := [Initialize ''T1''], accessToken := Some ''T1''\<rparr>) \<and>
   updateToken example_world (example_props\<lparr>token := Some ''expired''\<rparr>)
       (initial_sys\<lparr>accessToken := Some ''T1''\<rparr>)
     = (Inl (Rejected ''401''),
        initial_sys\<lparr>accessToken := Some ''T1'', trace := [Initialize ''expired'']\<rparr>)"
  using updateToken_marker [of example_props "initial_sys\<lparr>accessToken := Some ''T1''\<rparr>" example_world]
    updateToken_marker [of example_props initial_sys example_world]
    updateToken_marker [of "example_props\<lparr>token := Some ''expired''\<rparr>"
      "initial_sys\<lparr>accessToken := Some ''T1''\<rparr>" example_world]
  by (simp add: example_props_def initial_sys_def example_world_def)

section \<open>Tiled mode before a descriptor is resolved\<close>

text \<open>
  C8. With no URL template in the state (unset, or empty) the tile fetch returns \<open>null\<close>:
  the result is \<open>Inr None\<close>, not an error, the state is unchanged and nothing is loaded.
  The same holds through \<^verbatim>\<open>getTileData\<close> whenever the render method is not the
  filmstrip.
\<close>

theorem getImageTileData_not_ready:
  "(urlFormat (layer s) = None \<or> urlFormat (layer s) = Some [] \<longrightarrow>
      getImageTileData w t s = (Inr None, s)) \<and>
   (renderMethod (layer s) \<noteq> Some Filmstrip \<and> urlFormat (layer s) = None \<longrightarrow>
      getTileData w p t s = (Inr None, s))"
  by (auto simp: getImageTileData_def getTileData_def)

theorem getImageTileData_not_ready_witness:
  "getImageTileData example_world example_tile initial_sys = (Inr None, initial_sys) \<and>
   getTileData example_world example_props example_tile initial_sys = (Inr None, initial_sys)"
  using getImageTileData_not_ready [of initial_sys example_world example_tile example_props]
  by (simp add: initial_sys_def empty_state_def)

section \<open>The animation clock without frames\<close>

text \<open>
  C9. When \<open>nFrames\<close> is unset or zero the animation step returns the state it was
  given: no frame index is computed or written.
\<close>

theorem animate_step_noop:
  "(nFrames l = None \<or> nFrames l = Some 0 \<longrightarrow> animate_step w p l = l) \<and>
   (nFrames (layer s) = None \<or> nFrames (layer s) = Some 0 \<longrightarrow> setState (animate_step w p) s = s)"
  by (auto simp: animate_step_def setState_def)

theorem animate_step_noop_witness:
  "animate_step example_world example_props (empty_state\<lparr>frame := Some (Index 4)\<rparr>)
     = empty_state\<lparr>frame := Some (Index 4)\<rparr> \<and>
   animate_step example_world example_props (empty_state\<lparr>nFrames := Some 0, frame := Some (Index 4)\<rparr>)
     = empty_state\<lparr>nFrames := Some 0, frame := Some (Index 4)\<rparr>"
  using animate_step_noop [of "empty_state\<lparr>frame := Some (Index 4)\<rparr>" example_world example_props initial_sys]
    animate_step_noop [of "empty_state\<lparr>nFrames := Some 0, frame := Some (Index 4)\<rparr>" example_world
      example_props initial_sys]
  by (simp add: empty_state_def initial_sys_def)

section \<open>Rounding to the nearest double\<close>


lemma pow2_nonneg [simp]: "0 \<le> pow2 k"
  by (simp add: pow2_def)

lemma pow2_nonzero [simp]: "pow2 k \<noteq> 0"
  by (simp add: pow2_def)




lemma pow2_0 [simp]: "pow2 0 = 1"
  by (simp add: pow2_def)





lemma pow2_1 [simp]: "pow2 1 = 2"
  by (simp add: pow2_def)









lemma round_even_of_int [simp]: "round_even (of_int z) = z"
  by (simp add: round_even_def)


lemma ulp_expo: "ulp x = pow2 (expo x)"
  by (simp add: ulp_def)


lemma ulp_nonneg [simp]: "0 \<le> ulp x"
  by (simp add: ulp_expo)

lemma ulp_nonzero [simp]: "ulp x \<noteq> 0"
  by (simp add: ulp_expo)







lemma rnd_0 [simp]: "rnd 0 = 0"
  by (simp add: rnd_def)








lemma is_double_0 [simp]: "is_double 0"
  by (simp add: is_double_def)














section \<open>The animation clock with frames\<close>


















section \<open>The filmstrip fetch\<close>

text \<open>The loop runs over the indices below the ceiling of \<open>nFrames\<close>.\<close>

lemma slices_eq:
  "slices n i = map (\<lambda>j. (0, j * TILE_SIZE, TILE_SIZE, TILE_SIZE)) [i ..< nat \<lceil>n\<rceil>]"
proof (induction n i rule: slices.induct)
  case (1 n i)
  show ?case
  proof (cases "of_nat i < n")
    case True
    then have "int i < \<lceil>n\<rceil>" by (simp add: less_ceiling_iff)
    then have lt: "i < nat \<lceil>n\<rceil>" by linarith
    have "slices n i = (0, i * TILE_SIZE, TILE_SIZE, TILE_SIZE) # slices n (i + 1)"
      using True by (subst slices.simps) simp
    also have "\<dots> = (0, i * TILE_SIZE, TILE_SIZE, TILE_SIZE)
        # map (\<lambda>j. (0, j * TILE_SIZE, TILE_SIZE, TILE_SIZE)) [i + 1 ..< nat \<lceil>n\<rceil>]"
      using 1 True by simp
    also have "\<dots> = map (\<lambda>j. (0, j * TILE_SIZE, TILE_SIZE, TILE_SIZE)) [i ..< nat \<lceil>n\<rceil>]"
      using lt by (simp add: upt_conv_Cons)
    finally show ?thesis .
  next
    case False
    then have "\<not> int i < \<lceil>n\<rceil>" by (simp add: less_ceiling_iff)
    then have "nat \<lceil>n\<rceil> \<le> i" by linarith
    moreover have "slices n i = []" using False by (subst slices.simps) simp
    ultimately show ?thesis by simp
  qed
qed

lemma gather_ok:
  "(\<forall>x \<in> set xs. f x = Inr (g x)) \<Longrightarrow> gather (map f xs) = Inr (map g xs)"
  by (induction xs) simp_all

lemma gather_rejected:
  "x \<in> set xs \<Longrightarrow> f x = Inl r \<Longrightarrow> \<exists>r'. gather (map f xs) = Inl (Rejected r')"
proof (induction xs)
  case Nil
  then show ?case by simp
next
  case (Cons a xs)
  show ?case
  proof (cases "f a")
    case (Inl q)
    then show ?thesis by simp
  next
    case (Inr y)
    with Cons have "x \<in> set xs" by auto
    with Cons obtain r' where "gather (map f xs) = Inl (Rejected r')" by blast
    with Inr show ?thesis by simp
  qed
qed

text \<open>
  Once the thumbnail URL and the image are there, the result is the gathering of the
  slices, and the state holds \<open>nFrames\<close> and the trace of all calls whatever the
  slices give.
\<close>

lemma getFilmstripTileData_loaded:
  assumes "getFilmstripThumbURL w (s_eeObject (layer s)) (filmArgs w p (tile_bbox t)) = Inr u"
    and "load w u True = Inr img"
  shows "getFilmstripTileData w p t s =
     (case gather (map (slice_promise w img) (slices (of_nat (img_height img) / of_nat TILE_SIZE) 0)) of
        Inl e \<Rightarrow> Inl e | Inr ps \<Rightarrow> Inr (Some ps),
      s\<lparr>trace := trace s @ [GetFilmstripThumbURL (s_eeObject (layer s)) (filmArgs w p (tile_bbox t)),
                               Load u True]
                 @ map (slice_call img) (slices (of_nat (img_height img) / of_nat TILE_SIZE) 0),
         layer := (layer s)\<lparr>nFrames := Some (of_nat (img_height img) / of_nat TILE_SIZE)\<rparr>\<rparr>)"
  using assms
  by (simp add: getFilmstripTileData_def Let_def called_def setState_def split: sum.splits)

lemma frames_of_multiple: "nat \<lceil>(of_nat (256 * N) :: rat) / of_nat TILE_SIZE\<rceil> = N"
  by (simp add: TILE_SIZE_def)

text \<open>
  C2 (as amended). When the thumbnail URL resolves, the image decodes and no slice is
  rejected, the fetch returns \<open>ceiling (height / 256)\<close> frames; frame \<open>i\<close> is the
  \<open>256 \<times> 256\<close> bitmap cut at vertical offset \<open>i * 256\<close>; for a height \<open>256 * N\<close> these
  are exactly \<open>N\<close> frames. No height raises an error: the frame count written to the
  state is \<open>height / 256\<close>, a fraction when \<open>256\<close> does not divide the height.
\<close>

theorem getFilmstripTileData_frames:
  assumes "getFilmstripThumbURL w (s_eeObject (layer s)) (filmArgs w p (tile_bbox t)) = Inr u"
    and "load w u True = Inr img"
    and "\<forall>i < nat \<lceil>(of_nat (img_height img) :: rat) / 256\<rceil>.
           createImageBitmap w img 0 (i * 256) 256 256 = None"
  shows "\<exists>frames.
           fst (getFilmstripTileData w p t s) = Inr (Some frames) \<and>
           length frames = nat \<lceil>(of_nat (img_height img) :: rat) / 256\<rceil> \<and>
           (\<forall>i < length frames.
              frames ! i = ImageBitmap img 0 (i * 256) 256 256 \<and>
              picture_width (frames ! i) = 256 \<and> picture_height (frames ! i) = 256) \<and>
           (\<forall>N. img_height img = 256 * N \<longrightarrow> length frames = N) \<and>
           nFrames (layer (snd (getFilmstripTileData w p t s))) = Some (of_nat (img_height img) / 256)"
proof -
  let ?n = "of_nat (img_height img) / of_nat TILE_SIZE :: rat"
  let ?frames = "map (\<lambda>i. ImageBitmap img 0 (i * TILE_SIZE) TILE_SIZE TILE_SIZE) [0 ..< nat \<lceil>?n\<rceil>]"
  have "\<forall>b \<in> set (slices ?n 0).
          slice_promise w img b = Inr (case b of (sx, sy, sw, sh) \<Rightarrow> ImageBitmap img sx sy sw sh)"
    using assms(3) by (auto simp: slices_eq slice_promise_def TILE_SIZE_def)
  then have "gather (map (slice_promise w img) (slices ?n 0))
      = Inr (map (\<lambda>b. case b of (sx, sy, sw, sh) \<Rightarrow> ImageBitmap img sx sy sw sh) (slices ?n 0))"
    by (rule gather_ok)
  also have "map (\<lambda>b. case b of (sx, sy, sw, sh) \<Rightarrow> ImageBitmap img sx sy sw sh) (slices ?n 0) = ?frames"
    by (simp add: slices_eq)
  finally have g: "gather (map (slice_promise w img) (slices ?n 0)) = Inr ?frames" .
  have r: "fst (getFilmstripTileData w p t s) = Inr (Some ?frames)"
    and n: "nFrames (layer (snd (getFilmstripTileData w p t s))) = Some ?n"
    using g by (simp_all add: getFilmstripTileData_loaded [OF assms(1,2)])
  have len: "length ?frames = nat \<lceil>?n\<rceil>" by simp
  have mult: "\<forall>N. img_height img = 256 * N \<longrightarrow> length ?frames = N"
    using frames_of_multiple by (simp add: TILE_SIZE_def)
  show ?thesis
    using r n len mult by (intro exI [of _ ?frames]) (simp add: TILE_SIZE_def)
qed

theorem getFilmstripTileData_frames_witness:
  "fst (getFilmstripTileData example_world example_props example_tile initial_sys)
     = Inr (Some [ImageBitmap \<lparr>img_url = ''https://thumb/film.png'', img_width = 256, img_height = 768\<rparr> 0 0 256 256,
                  ImageBitmap \<lparr>img_url = ''https://thumb/film.png'', img_width = 256, img_height = 768\<rparr> 0 256 256 256,
                  ImageBitmap \<lparr>img_url = ''https://thumb/film.png'', img_width = 256, img_height = 768\<rparr> 0 512 256 256]) \<and>
   nFrames (layer (snd (getFilmstripTileData example_world example_props example_tile initial_sys))) = Some 3"
proof -
  let ?img = "\<lparr>img_url = ''https://thumb/film.png'', img_width = 256, img_height = 768\<rparr>"
  have u: "getFilmstripThumbURL example_world (s_eeObject (layer initial_sys))
      (filmArgs example_world example_props (tile_bbox example_tile)) = Inr ''https://thumb/film.png''"
    by (simp add: example_world_def)
  have l: "load example_world ''https://thumb/film.png'' True = Inr ?img"
    by (simp add: example_world_def)
  have c: "\<forall>i < nat \<lceil>(of_nat (img_height ?img) :: rat) / 256\<rceil>.
      createImageBitmap example_world ?img 0 (i * 256) 256 256 = None"
    by (simp add: example_world_def)
  have k: "nat \<lceil>(of_nat (img_height ?img) :: rat) / 256\<rceil> = 3" by simp
  from getFilmstripTileData_frames [OF u l c] obtain frames where
    f: "fst (getFilmstripTileData example_world example_props example_tile initial_sys) = Inr (Some frames)"
    and len: "length frames = 3"
    and each: "\<forall>i < length frames. frames ! i = ImageBitmap ?img 0 (i * 256) 256 256"
    and n: "nFrames (layer (snd (getFilmstripTileData example_world example_props example_tile initial_sys)))
        = Some (of_nat (img_height ?img) / 256)"
    unfolding k by blast
  have "frames = [frames ! 0, frames ! 1, frames ! 2]"
    using len by (auto simp: list_eq_iff_nth_eq less_Suc_eq numeral_3_eq_3 numeral_2_eq_2)
  also have "\<dots> = [ImageBitmap ?img 0 0 256 256, ImageBitmap ?img 0 256 256 256, ImageBitmap ?img 0 512 256 256]"
    using each len by simp
  finally show ?thesis using f n by simp
qed

text \<open>
  C2 as stated fails: a thumbnail of height \<open>300\<close>, which \<open>256\<close> does not divide, is
  not refused. The fetch returns two frames, the second reaching below the image.
\<close>

theorem getFilmstripTileData_no_decode_error:
  "\<not> 256 dvd (300::nat) \<and>
   load (example_world\<lparr>load := \<lambda>u b. Inr \<lparr>img_url = u, img_width = 256, img_height = 300\<rparr>\<rparr>)
      ''https://thumb/film.png'' True
     = Inr \<lparr>img_url = ''https://thumb/film.png'', img_width = 256, img_height = 300\<rparr> \<and>
   fst (getFilmstripTileData
          (example_world\<lparr>load := \<lambda>u b. Inr \<lparr>img_url = u, img_width = 256, img_height = 300\<rparr>\<rparr>)
          example_props example_tile initial_sys)
     = Inr (Some [ImageBitmap \<lparr>img_url = ''https://thumb/film.png'', img_width = 256, img_height = 300\<rparr> 0 0 256 256,
                  ImageBitmap \<lparr>img_url = ''https://thumb/film.png'', img_width = 256, img_height = 300\<rparr> 0 256 256 256]) \<and>
   nFrames (layer (snd (getFilmstripTileData
          (example_world\<lparr>load := \<lambda>u b. Inr \<lparr>img_url = u, img_width = 256, img_height = 300\<rparr>\<rparr>)
          example_props example_tile initial_sys)))
     = Some (75 / 64)"
proof -
  let ?w = "example_world\<lparr>load := \<lambda>u b. Inr \<lparr>img_url = u, img_width = 256, img_height = 300\<rparr>\<rparr>"
  let ?img = "\<lparr>img_url = ''https://thumb/film.png'', img_width = 256, img_height = 300\<rparr>"
  have u: "getFilmstripThumbURL ?w (s_eeObject (layer initial_sys))
      (filmArgs ?w example_props (tile_bbox example_tile)) = Inr ''https://thumb/film.png''"
    by (simp add: example_world_def)
  have l: "load ?w ''https://thumb/film.png'' True = Inr ?img"
    by simp
  have sl: "slices (of_nat (img_height ?img) / of_nat TILE_SIZE) 0 = [(0, 0, 256, 256), (0, 256, 256, 256)]"
    by (simp add: slices.simps TILE_SIZE_def)
  have d: "\<not> 256 dvd (300::nat)" by simp
  show ?thesis
    unfolding getFilmstripTileData_loaded [OF u l] sl using d
    by (simp add: slice_promise_def example_world_def TILE_SIZE_def)
qed

text \<open>
  C10. When the thumbnail URL resolves and the image decodes, the frame count is in the
  state the fetch leaves, whatever becomes of the slices: if one of them is rejected, the
  fetch is rejected and the state still holds the new frame count.
\<close>

theorem getFilmstripTileData_nFrames_kept:
  assumes "getFilmstripThumbURL w (s_eeObject (layer s)) (filmArgs w p (tile_bbox t)) = Inr u"
    and "load w u True = Inr img"
    and "i < nat \<lceil>(of_nat (img_height img) :: rat) / 256\<rceil>"
    and "createImageBitmap w img 0 (i * 256) 256 256 = Some r"
  shows "(\<exists>r'. fst (getFilmstripTileData w p t s) = Inl (Rejected r')) \<and>
         nFrames (layer (snd (getFilmstripTileData w p t s))) = Some (of_nat (img_height img) / 256)"
proof -
  let ?n = "of_nat (img_height img) / of_nat TILE_SIZE :: rat"
  have "(0, i * TILE_SIZE, TILE_SIZE, TILE_SIZE) \<in> set (slices ?n 0)"
    using assms(3) by (simp add: slices_eq TILE_SIZE_def)
  moreover have "slice_promise w img (0, i * TILE_SIZE, TILE_SIZE, TILE_SIZE) = Inl r"
    using assms(4) by (simp add: slice_promise_def TILE_SIZE_def)
  ultimately have "\<exists>r'. gather (map (slice_promise w img) (slices ?n 0)) = Inl (Rejected r')"
    by (rule gather_rejected)
  then obtain r' where "gather (map (slice_promise w img) (slices ?n 0)) = Inl (Rejected r')" ..
  then show ?thesis
    by (simp add: getFilmstripTileData_loaded [OF assms(1,2)] TILE_SIZE_def)
qed

theorem getFilmstripTileData_nFrames_kept_witness:
  "nFrames (layer initial_sys) = None \<and>
   fst (getFilmstripTileData
          (example_world\<lparr>createImageBitmap := \<lambda>img sx sy sw sh. if sy = 512 then Some ''decode failed'' else None\<rparr>)
          example_props example_tile initial_sys) = Inl (Rejected ''decode failed'') \<and>
   nFrames (layer (snd (getFilmstripTileData
          (example_world\<lparr>createImageBitmap := \<lambda>img sx sy sw sh. if sy = 512 then Some ''decode failed'' else None\<rparr>)
          example_props example_tile initial_sys))) = Some 3"
proof -
  let ?w = "example_world\<lparr>createImageBitmap := \<lambda>img sx sy sw sh. if sy = 512 then Some ''decode failed'' else None\<rparr>"
  let ?img = "\<lparr>img_url = ''https://thumb/film.png'', img_width = 256, img_height = 768\<rparr>"
  have u: "getFilmstripThumbURL ?w (s_eeObject (layer initial_sys))
      (filmArgs ?w example_props (tile_bbox example_tile)) = Inr ''https://thumb/film.png''"
    by (simp add: example_world_def)
  have l: "load ?w ''https://thumb/film.png'' True = Inr ?img"
    by (simp add: example_world_def)
  have i: "2 < nat \<lceil>(of_nat (img_height ?img) :: rat) / 256\<rceil>" by simp
  have c: "createImageBitmap ?w ?img 0 (2 * 256) 256 256 = Some ''decode failed''" by simp
  have sl: "slices (of_nat (img_height ?img) / of_nat TILE_SIZE) 0
      = [(0, 0, 256, 256), (0, 256, 256, 256), (0, 512, 256, 256)]"
    by (simp add: slices.simps TILE_SIZE_def)
  have "fst (getFilmstripTileData ?w example_props example_tile initial_sys) = Inl (Rejected ''decode failed'')"
    unfolding getFilmstripTileData_loaded [OF u l] sl by (simp add: slice_promise_def)
  moreover have "nFrames (layer (snd (getFilmstripTileData ?w example_props example_tile initial_sys))) = Some 3"
    using getFilmstripTileData_nFrames_kept [OF u l i c] by simp
  moreover have "nFrames (layer initial_sys) = None"
    by (simp add: initial_sys_def empty_state_def)
  ultimately show ?thesis by blast
qed

section \<open>The arguments of the thumbnail request\<close>

text \<open>
  C6. The arguments of the thumbnail request hold \<open>dimensions = [256, 256]\<close>, the
  rectangle \<open>[west, south, east, north]\<close> in \<open>EPSG:4326\<close> with \<open>geodesic = false\<close> as
  \<open>region\<close>, and \<open>crs = EPSG:3857\<close>, whatever the visualisation parameters hold under
  these keys; every other key has the value the visualisation parameters give it. The
  keys of the visualisation parameters come first, in their order, and no key is
  repeated. These arguments are what the fetch sends, as its first call.
\<close>

theorem filmArgs_explicit_keys_win:
  "map_of (filmArgs w p b) ''dimensions'' = Some (JArr [JNum 256, JNum 256]) \<and>
   map_of (filmArgs w p b) ''region''
     = Some (Rectangle [west b, south b, east b, north b] ''EPSG:4326'' False) \<and>
   map_of (filmArgs w p b) ''crs'' = Some (JStr ''EPSG:3857'') \<and>
   (\<forall>k. k \<notin> {''dimensions'', ''region'', ''crs''} \<longrightarrow>
        map_of (filmArgs w p b) k = map_of (spread w (visParams p)) k) \<and>
   (distinct (map fst (spread w (visParams p))) \<longrightarrow> distinct (map fst (filmArgs w p b))) \<and>
   (\<exists>extra. map fst (filmArgs w p b) = map fst (spread w (visParams p)) @ extra) \<and>
   (\<exists>rest. trace (snd (getFilmstripTileData w p t s))
        = trace s @ GetFilmstripThumbURL (s_eeObject (layer s)) (filmArgs w p (tile_bbox t)) # rest)"
proof (intro conjI)
  show "\<exists>rest. trace (snd (getFilmstripTileData w p t s))
        = trace s @ GetFilmstripThumbURL (s_eeObject (layer s)) (filmArgs w p (tile_bbox t)) # rest"
    by (simp add: getFilmstripTileData_def Let_def called_def setState_def split: sum.splits)
qed (simp_all add: filmArgs_def update_conv' region_of_def TILE_SIZE_def distinct_update update_keys)

theorem filmArgs_explicit_keys_win_witness:
  "filmArgs example_world (example_props\<lparr>visParams := Some 3\<rparr>) (tile_bbox example_tile)
     = [(''dimensions'', JArr [JNum 256, JNum 256]), (''palette'', JStr ''red''),
        (''crs'', JStr ''EPSG:3857''), (''region'', Rectangle [0, 0, 90, 45] ''EPSG:4326'' False)] \<and>
   map_of (filmArgs example_world (example_props\<lparr>visParams := Some 3\<rparr>) (tile_bbox example_tile)) ''palette''
     = Some (JStr ''red'')"
  using filmArgs_explicit_keys_win [of example_world "example_props\<lparr>visParams := Some 3\<rparr>"
      "tile_bbox example_tile" example_tile initial_sys]
  by (simp add: filmArgs_def spread_def example_world_def example_props_def example_tile_def region_of_def
      TILE_SIZE_def)

section \<open>The URL of a tile\<close>

text \<open>The replacement is at the leftmost occurrence of a non-empty token.\<close>

lemma occ_Cons:
  assumes "take (length tok) (c # cs) \<noteq> tok"
  shows "(c # cs = pre' @ tok @ post') \<longleftrightarrow> (\<exists>q. pre' = c # q \<and> cs = q @ tok @ post')"
proof (cases pre')
  case Nil
  have "c # cs \<noteq> tok @ post'"
  proof
    assume "c # cs = tok @ post'"
    then have "take (length tok) (c # cs) = tok" by simp
    with assms show False by simp
  qed
  with Nil show ?thesis by simp
next
  case (Cons a q)
  then show ?thesis by auto
qed

lemma js_replace_first: "tok \<noteq> [] \<Longrightarrow> first_replaced tok rep s (js_replace tok rep s)"
proof (induction s)
  case Nil
  then show ?case by (simp add: first_replaced_def)
next
  case (Cons c cs)
  show ?case
  proof (cases "take (length tok) (c # cs) = tok")
    case True
    then have "c # cs = [] @ tok @ drop (length tok) (c # cs)"
      by (metis append_Nil append_take_drop_id)
    then show ?thesis
      unfolding first_replaced_def using True
      by (intro disjI1 exI[of _ "[]"] exI[of _ "drop (length tok) (c # cs)"]) simp
  next
    case False
    note occ = occ_Cons[OF False]
    from Cons have ih: "first_replaced tok rep cs (js_replace tok rep cs)" by simp
    have r: "js_replace tok rep (c # cs) = c # js_replace tok rep cs"
      using False by simp
    from ih show ?thesis
      unfolding first_replaced_def
    proof (elim disjE exE conjE)
      fix pre post
      assume cs: "cs = pre @ tok @ post"
        and min: "\<forall>pre' post'. cs = pre' @ tok @ post' \<longrightarrow> length pre \<le> length pre'"
        and res: "js_replace tok rep cs = pre @ rep @ post"
      have "c # cs = (c # pre) @ tok @ post" using cs by simp
      moreover have "\<forall>pre' post'. c # cs = pre' @ tok @ post' \<longrightarrow> length (c # pre) \<le> length pre'"
        using min occ by auto
      moreover have "js_replace tok rep (c # cs) = (c # pre) @ rep @ post"
        using r res by simp
      ultimately show "(\<exists>pre post. c # cs = pre @ tok @ post \<and>
        (\<forall>pre' post'. c # cs = pre' @ tok @ post' \<longrightarrow> length pre \<le> length pre') \<and>
        js_replace tok rep (c # cs) = pre @ rep @ post)
     \<or> ((\<nexists>pre post. c # cs = pre @ tok @ post) \<and> js_replace tok rep (c # cs) = c # cs)"
        by blast
    next
      assume no: "\<nexists>pre post. cs = pre @ tok @ post" and res: "js_replace tok rep cs = cs"
      have "\<nexists>pre post. c # cs = pre @ tok @ post"
        using no occ by auto
      then show "(\<exists>pre post. c # cs = pre @ tok @ post \<and>
        (\<forall>pre' post'. c # cs = pre' @ tok @ post' \<longrightarrow> length pre \<le> length pre') \<and>
        js_replace tok rep (c # cs) = pre @ rep @ post)
     \<or> ((\<nexists>pre post. c # cs = pre @ tok @ post) \<and> js_replace tok rep (c # cs) = c # cs)"
        using r res by simp
    qed
  qed
qed

lemma getImageTileData_load:
  assumes "urlFormat (layer s) = Some fmt" "fmt \<noteq> []"
  shows "trace (snd (getImageTileData w t s))
      = trace s @ [Load (image_url fmt (tile_x t) (tile_y t) (tile_z t)) False]"
  using assms by (simp add: getImageTileData_def Let_def called_def split: sum.splits)

text \<open>
  \<^verbatim>\<open>String(n)\<close> is the decimal numeral of \<open>n\<close>, and the only one.
\<close>

lemma digit_cases: "d < 10 \<Longrightarrow> d = 0 \<or> d = 1 \<or> d = 2 \<or> d = 3 \<or> d = 4 \<or> d = 5 \<or> d = 6 \<or> d = 7 \<or> d = 8 \<or> d = (9::nat)"
  by arith

lemma digit_char_props:
  assumes "d < 10"
  shows "is_digit (digit_char d)" and "(of_char (digit_char d) :: nat) = 48 + d"
    and "digit_char d = CHR ''0'' \<longleftrightarrow> d = 0"
  using digit_cases [OF assms] by (auto simp: digit_char_def is_digit_def)

lemma nat_to_string_digits:
  "nat_to_string n \<noteq> [] \<and> list_all is_digit (nat_to_string n) \<and>
   (hd (nat_to_string n) = CHR ''0'' \<longrightarrow> n = 0) \<and>
   foldl (\<lambda>a c. 10 * a + (of_char c - 48)) 0 (nat_to_string n) = n"
proof (induction n rule: nat_to_string.induct)
  case (1 n)
  show ?case
  proof (cases "n < 10")
    case True
    then have "nat_to_string n = [digit_char n]" by (subst nat_to_string.simps) simp
    then show ?thesis using digit_char_props [OF True] by simp
  next
    case False
    have m: "n mod 10 < 10" by simp
    have s: "nat_to_string n = nat_to_string (n div 10) @ [digit_char (n mod 10)]"
      using False by (subst nat_to_string.simps) simp
    from False have "n div 10 \<noteq> 0" by simp
    with 1 [OF False] have ih: "nat_to_string (n div 10) \<noteq> []"
      "list_all is_digit (nat_to_string (n div 10))"
      "hd (nat_to_string (n div 10)) \<noteq> CHR ''0''"
      "foldl (\<lambda>a c. 10 * a + (of_char c - 48)) 0 (nat_to_string (n div 10)) = n div 10"
      by auto
    show ?thesis
      using ih digit_char_props [OF m] False by (simp add: s)
  qed
qed

lemma decimal_nat_to_string: "decimal_nat (nat_to_string n) = Some n"
proof -
  note d = nat_to_string_digits [of n]
  have "1 < length (nat_to_string n) \<Longrightarrow> hd (nat_to_string n) \<noteq> CHR ''0''"
  proof
    assume l: "1 < length (nat_to_string n)" and "hd (nat_to_string n) = CHR ''0''"
    with d have "n = 0" by blast
    then have "nat_to_string n = [digit_char 0]" by (subst nat_to_string.simps) simp
    with l show False by simp
  qed
  with d show ?thesis by (auto simp: decimal_nat_def)
qed

lemma decimal_number_to_string: "decimal_int (number_to_string i) = Some i"
proof (cases "i < 0")
  case True
  then have "decimal_int (number_to_string i)
      = (case decimal_nat (nat_to_string (nat (- i))) of None \<Rightarrow> None
         | Some n \<Rightarrow> if n = 0 then None else Some (- int n))"
    by (simp add: number_to_string_def decimal_int_def)
  then show ?thesis using True by (simp add: decimal_nat_to_string)
next
  case False
  note d = nat_to_string_digits [of "nat i"]
  then obtain c r where cr: "nat_to_string (nat i) = c # r" by (cases "nat_to_string (nat i)") auto
  with d have "is_digit c" by simp
  then have "c \<noteq> CHR ''-''" by (auto simp: is_digit_def)
  then have "decimal_int (nat_to_string (nat i)) = map_option int (decimal_nat (nat_to_string (nat i)))"
    using cr by (simp add: decimal_int_def)
  then show ?thesis using False by (simp add: number_to_string_def decimal_nat_to_string)
qed

lemma is_digit_char:
  assumes "is_digit c"
  shows "\<exists>d<10. c = digit_char d \<and> (of_char c :: nat) - 48 = d"
proof -
  from assms consider "c = CHR ''0''" | "c = CHR ''1''" | "c = CHR ''2''" | "c = CHR ''3''"
    | "c = CHR ''4''" | "c = CHR ''5''" | "c = CHR ''6''" | "c = CHR ''7''" | "c = CHR ''8''"
    | "c = CHR ''9''"
    by (auto simp: is_digit_def)
  then show ?thesis
  proof cases
    case 1 then show ?thesis by (intro exI [of _ 0]) (simp add: digit_char_def)
  next
    case 2 then show ?thesis by (intro exI [of _ 1]) (simp add: digit_char_def)
  next
    case 3 then show ?thesis by (intro exI [of _ 2]) (simp add: digit_char_def)
  next
    case 4 then show ?thesis by (intro exI [of _ 3]) (simp add: digit_char_def)
  next
    case 5 then show ?thesis by (intro exI [of _ 4]) (simp add: digit_char_def)
  next
    case 6 then show ?thesis by (intro exI [of _ 5]) (simp add: digit_char_def)
  next
    case 7 then show ?thesis by (intro exI [of _ 6]) (simp add: digit_char_def)
  next
    case 8 then show ?thesis by (intro exI [of _ 7]) (simp add: digit_char_def)
  next
    case 9 then show ?thesis by (intro exI [of _ 8]) (simp add: digit_char_def)
  next
    case 10 then show ?thesis by (intro exI [of _ 9]) (simp add: digit_char_def)
  qed
qed

lemma decimal_nat_unique: "decimal_nat s = Some n \<Longrightarrow> s = nat_to_string n"
proof (induction s arbitrary: n rule: rev_induct)
  case Nil
  then show ?case by (simp add: decimal_nat_def)
next
  case (snoc c r)
  let ?f = "\<lambda>a c. 10 * a + ((of_char c :: nat) - 48)"
  from snoc.prems have all: "list_all is_digit r" and c: "is_digit c"
    and hd: "1 < length (r @ [c]) \<longrightarrow> hd (r @ [c]) \<noteq> CHR ''0''"
    and n: "n = 10 * foldl ?f 0 r + (of_char c - 48)"
    by (auto simp: decimal_nat_def split: if_splits)
  from is_digit_char [OF c] obtain d where d: "d < 10" "c = digit_char d" "(of_char c :: nat) - 48 = d"
    by blast
  show ?case
  proof (cases "r = []")
    case True
    with n d have "n = d" by simp
    then have "nat_to_string n = [digit_char d]" using d(1) by (subst nat_to_string.simps) simp
    with True d show ?thesis by simp
  next
    case False
    define m where "m = foldl ?f 0 r"
    from False hd have h: "hd r \<noteq> CHR ''0''" by simp
    with False all have "decimal_nat r = Some m" by (simp add: decimal_nat_def m_def)
    then have r: "r = nat_to_string m" by (rule snoc.IH)
    have "m \<noteq> 0"
    proof
      assume "m = 0"
      then have "nat_to_string m = [digit_char 0]" by (subst nat_to_string.simps) simp
      with r h show False by (simp add: digit_char_def)
    qed
    with n d have nm: "n = 10 * m + d" and big: "\<not> n < 10" by (simp_all add: m_def)
    from nm d(1) have "n div 10 = m" "n mod 10 = d" by simp_all
    with big have "nat_to_string n = nat_to_string m @ [digit_char d]"
      by (subst nat_to_string.simps) simp
    with r d show ?thesis by simp
  qed
qed

lemma decimal_int_unique: "decimal_int s = Some i \<Longrightarrow> s = number_to_string i"
proof (cases s)
  case Nil
  assume "decimal_int s = Some i"
  with Nil show ?thesis by (simp add: decimal_int_def)
next
  case (Cons c r)
  assume a: "decimal_int s = Some i"
  show ?thesis
  proof (cases "c = CHR ''-''")
    case True
    with a Cons obtain n where n: "decimal_nat r = Some n" "n \<noteq> 0" "i = - int n"
      by (auto simp: decimal_int_def split: option.splits if_splits)
    from n(1) have "r = nat_to_string n" by (rule decimal_nat_unique)
    with n Cons True show ?thesis by (simp add: number_to_string_def)
  next
    case False
    with a Cons obtain n where n: "decimal_nat s = Some n" "i = int n"
      by (auto simp: decimal_int_def)
    from n(1) have "s = nat_to_string n" by (rule decimal_nat_unique)
    with n show ?thesis by (simp add: number_to_string_def)
  qed
qed

lemma decimal_int_iff: "decimal_int s = Some i \<longleftrightarrow> s = number_to_string i"
  using decimal_int_unique decimal_number_to_string by blast

text \<open>
  C7. With a URL template in the state, the fetch loads exactly one URL: the template
  with the first occurrence of \<open>{x}\<close> replaced by the decimal numeral of the tile's \<open>x\<close>,
  then the first occurrence of \<open>{y}\<close> by the numeral of \<open>y\<close>, then the first occurrence of
  \<open>{z}\<close> by the numeral of \<open>z\<close>; a token that does not occur changes nothing, and later
  occurrences stay. The image loaded from that URL is returned in a one-element
  sequence. The string that \<^verbatim>\<open>String\<close> gives for an integer is its decimal numeral and
  no other string is. The template \<open>https://x/{z}/{x}/{y}.png\<close> with \<open>x = 3\<close>, \<open>y = 7\<close>,
  \<open>z = 2\<close> gives \<open>https://x/2/3/7.png\<close>, and a second \<open>{x}\<close> is left as it is.
\<close>

theorem getImageTileData_url:
  "(urlFormat (layer s) = Some fmt \<and> fmt \<noteq> [] \<longrightarrow>
      (\<exists>xs ys zs s1 s2 s3.
         decimal_int xs = Some (tile_x t) \<and>
         decimal_int ys = Some (tile_y t) \<and>
         decimal_int zs = Some (tile_z t) \<and>
         first_replaced ''{x}'' xs fmt s1 \<and>
         first_replaced ''{y}'' ys s1 s2 \<and>
         first_replaced ''{z}'' zs s2 s3 \<and>
         trace (snd (getImageTileData w t s)) = trace s @ [Load s3 False] \<and>
         (\<forall>img. load w s3 False = Inr img \<longrightarrow> fst (getImageTileData w t s) = Inr (Some [Decoded img])))) \<and>
   (\<forall>r i. decimal_int r = Some i \<longleftrightarrow> r = number_to_string i) \<and>
   image_url ''https://x/{z}/{x}/{y}.png'' 3 7 2 = ''https://x/2/3/7.png'' \<and>
   image_url ''{x}/{x}/{y}/{z}'' 3 7 2 = ''3/{x}/7/2''"
proof (intro conjI impI allI)
  assume a: "urlFormat (layer s) = Some fmt \<and> fmt \<noteq> []"
  let ?xs = "number_to_string (tile_x t)"
  let ?ys = "number_to_string (tile_y t)"
  let ?zs = "number_to_string (tile_z t)"
  let ?s1 = "js_replace ''{x}'' ?xs fmt"
  let ?s2 = "js_replace ''{y}'' ?ys ?s1"
  let ?s3 = "js_replace ''{z}'' ?zs ?s2"
  have u: "image_url fmt (tile_x t) (tile_y t) (tile_z t) = ?s3"
    by (simp add: image_url_def)
  have d: "decimal_int ?xs = Some (tile_x t)" "decimal_int ?ys = Some (tile_y t)"
    "decimal_int ?zs = Some (tile_z t)"
    by (rule decimal_number_to_string)+
  have f: "first_replaced ''{x}'' ?xs fmt ?s1" "first_replaced ''{y}'' ?ys ?s1 ?s2"
    "first_replaced ''{z}'' ?zs ?s2 ?s3"
    by (rule js_replace_first, simp)+
  have tr: "trace (snd (getImageTileData w t s)) = trace s @ [Load ?s3 False]"
    using a getImageTileData_load [of s fmt w t] u by simp
  have ld: "\<forall>img. load w ?s3 False = Inr img \<longrightarrow> fst (getImageTileData w t s) = Inr (Some [Decoded img])"
    using a u by (simp add: getImageTileData_def Let_def)
  show "\<exists>xs ys zs s1 s2 s3.
         decimal_int xs = Some (tile_x t) \<and>
         decimal_int ys = Some (tile_y t) \<and>
         decimal_int zs = Some (tile_z t) \<and>
         first_replaced ''{x}'' xs fmt s1 \<and>
         first_replaced ''{y}'' ys s1 s2 \<and>
         first_replaced ''{z}'' zs s2 s3 \<and>
         trace (snd (getImageTileData w t s)) = trace s @ [Load s3 False] \<and>
         (\<forall>img. load w s3 False = Inr img \<longrightarrow> fst (getImageTileData w t s) = Inr (Some [Decoded img]))"
    using d f tr ld by (intro exI [of _ ?xs] exI [of _ ?ys] exI [of _ ?zs] exI [of _ ?s1]
        exI [of _ ?s2] exI [of _ ?s3]) (intro conjI)
next
  fix r i
  show "decimal_int r = Some i \<longleftrightarrow> r = number_to_string i"
    by (rule decimal_int_iff)
next
  show "image_url ''https://x/{z}/{x}/{y}.png'' 3 7 2 = ''https://x/2/3/7.png''"
    by (simp add: image_url_def number_to_string_def nat_to_string.simps digit_char_def)
next
  show "image_url ''{x}/{x}/{y}/{z}'' 3 7 2 = ''3/{x}/7/2''"
    by (simp add: image_url_def number_to_string_def nat_to_string.simps digit_char_def)
qed

theorem getImageTileData_url_witness:
  "trace (snd (getImageTileData example_world example_tile
       (initial_sys\<lparr>layer := empty_state\<lparr>urlFormat := Some ''https://x/{z}/{x}/{y}.png''\<rparr>\<rparr>)))
     = [Load ''https://x/2/3/7.png'' False] \<and>
   fst (getImageTileData example_world example_tile
       (initial_sys\<lparr>layer := empty_state\<lparr>urlFormat := Some ''https://x/{z}/{x}/{y}.png''\<rparr>\<rparr>))
     = Inr (Some [Decoded \<lparr>img_url = ''https://x/2/3/7.png'', img_width = 256, img_height = 256\<rparr>])"
  using getImageTileData_url [of "initial_sys\<lparr>layer := empty_state\<lparr>urlFormat := Some ''https://x/{z}/{x}/{y}.png''\<rparr>\<rparr>"
      "''https://x/{z}/{x}/{y}.png''" example_tile example_world]
  by (simp add: getImageTileData_def Let_def called_def image_url_def number_to_string_def
      nat_to_string.simps digit_char_def example_tile_def example_world_def initial_sys_def)

section \<open>Descriptor resolution\<close>




text \<open>
  C1 (as amended). Resolution is skipped, with the descriptor, the rest of the state and
  the trace unchanged, when the new \<^verbatim>\<open>visParams\<close> is the very object of the previous
  notification (then the two are deeply equal), the \<^verbatim>\<open>eeObject\<close> prop is unchanged and
  the data-changed flag is not set; it is also skipped whenever the state holds no
  handle. When the state holds a handle and the \<^verbatim>\<open>visParams\<close> is another object than
  before, or the data-changed flag is set, resolution is not skipped: a capability check
  throws, or \<^verbatim>\<open>getMap\<close> is called once with the handle and the new \<^verbatim>\<open>visParams\<close>.
\<close>

theorem updateEEVisParams_skip:
  "(visParams p = visParams oldProps \<and> eeObject p = eeObject oldProps \<and> \<not> dataChanged flags \<longrightarrow>
      skipped w p oldProps flags s \<and> deepEqual w (visParams p) (visParams oldProps)) \<and>
   (s_eeObject (layer s) = None \<longrightarrow> skipped w p oldProps flags s) \<and>
   (\<forall>obj. s_eeObject (layer s) = Some obj \<and> (visParams p \<noteq> visParams oldProps \<or> dataChanged flags) \<longrightarrow>
      \<not> skipped w p oldProps flags s \<and>
      ((\<exists>m. updateEEVisParams w p oldProps flags s = (Inl (Error m), s)) \<or>
       trace (snd (updateEEVisParams w p oldProps flags s)) = trace s @ [GetMap obj (visParams p)])) \<and>
   (skipped w p oldProps flags s \<longrightarrow>
      mapid (layer (snd (updateEEVisParams w p oldProps flags s))) = mapid (layer s) \<and>
      urlFormat (layer (snd (updateEEVisParams w p oldProps flags s))) = urlFormat (layer s) \<and>
      renderMethod (layer (snd (updateEEVisParams w p oldProps flags s))) = renderMethod (layer s) \<and>
      trace (snd (updateEEVisParams w p oldProps flags s)) = trace s)"
proof (intro conjI allI impI)
  assume "visParams p = visParams oldProps \<and> eeObject p = eeObject oldProps \<and> \<not> dataChanged flags"
  then show "skipped w p oldProps flags s"
    by (simp add: skipped_def updateEEVisParams_def)
next
  assume "visParams p = visParams oldProps \<and> eeObject p = eeObject oldProps \<and> \<not> dataChanged flags"
  then show "deepEqual w (visParams p) (visParams oldProps)"
    by (simp add: deepEqual_def split: option.splits)
next
  assume "s_eeObject (layer s) = None"
  then show "skipped w p oldProps flags s"
    by (simp add: skipped_def updateEEVisParams_def)
next
  fix obj
  assume a: "s_eeObject (layer s) = Some obj \<and> (visParams p \<noteq> visParams oldProps \<or> dataChanged flags)"
  have neq: "called c s \<noteq> s" for c
  proof
    assume "called c s = s"
    then have "trace (called c s) = trace s" by simp
    then show False by (simp add: called_def)
  qed
  have neq': "setState f (called c s) \<noteq> s" for c f
  proof
    assume "setState f (called c s) = s"
    then have "trace (setState f (called c s)) = trace s" by simp
    then show False by (simp add: called_def setState_def)
  qed
  show "\<not> skipped w p oldProps flags s"
    using a neq neq'
    by (auto simp: skipped_def updateEEVisParams_def Let_def split: sum.splits prod.splits)
  show "(\<exists>m. updateEEVisParams w p oldProps flags s = (Inl (Error m), s)) \<or>
       trace (snd (updateEEVisParams w p oldProps flags s)) = trace s @ [GetMap obj (visParams p)]"
    using a
    by (auto simp: updateEEVisParams_def Let_def called_def setState_def split: sum.splits prod.splits)
next
  assume "skipped w p oldProps flags s"
  then have "snd (updateEEVisParams w p oldProps flags s) = s" by (simp add: skipped_def)
  then show "mapid (layer (snd (updateEEVisParams w p oldProps flags s))) = mapid (layer s)"
    and "urlFormat (layer (snd (updateEEVisParams w p oldProps flags s))) = urlFormat (layer s)"
    and "renderMethod (layer (snd (updateEEVisParams w p oldProps flags s))) = renderMethod (layer s)"
    and "trace (snd (updateEEVisParams w p oldProps flags s)) = trace s"
    by simp_all
qed

theorem updateEEVisParams_skip_witness:
  "skipped example_world example_props example_props \<lparr>dataChanged = False\<rparr>
     (initial_sys\<lparr>layer := empty_state\<lparr>s_eeObject := Some 5\<rparr>\<rparr>) \<and>
   skipped example_world (example_props\<lparr>eeObject := PNull, visParams := Some 3\<rparr>)
     (example_props\<lparr>eeObject := PNull\<rparr>) \<lparr>dataChanged = False\<rparr> initial_sys \<and>
   \<not> skipped example_world (example_props\<lparr>visParams := Some 3\<rparr>) example_props \<lparr>dataChanged = False\<rparr>
     (initial_sys\<lparr>layer := empty_state\<lparr>s_eeObject := Some 5\<rparr>\<rparr>) \<and>
   trace (snd (updateEEVisParams example_world (example_props\<lparr>visParams := Some 3\<rparr>) example_props
     \<lparr>dataChanged = False\<rparr> (initial_sys\<lparr>layer := empty_state\<lparr>s_eeObject := Some 5\<rparr>\<rparr>)))
     = [GetMap 5 (Some 3)]"
proof -
  let ?s = "initial_sys\<lparr>layer := empty_state\<lparr>s_eeObject := Some 5\<rparr>\<rparr>"
  let ?f = "\<lparr>dataChanged = False\<rparr>"
  have "skipped example_world example_props example_props ?f ?s"
    using updateEEVisParams_skip [of example_props example_props ?f example_world ?s] by simp
  moreover have "skipped example_world (example_props\<lparr>eeObject := PNull, visParams := Some 3\<rparr>)
     (example_props\<lparr>eeObject := PNull\<rparr>) ?f initial_sys"
    using updateEEVisParams_skip [of "example_props\<lparr>eeObject := PNull, visParams := Some 3\<rparr>"
        "example_props\<lparr>eeObject := PNull\<rparr>" ?f example_world initial_sys]
    by (simp add: initial_sys_def empty_state_def)
  moreover have "\<not> skipped example_world (example_props\<lparr>visParams := Some 3\<rparr>) example_props ?f ?s"
    using updateEEVisParams_skip [of "example_props\<lparr>visParams := Some 3\<rparr>" example_props ?f example_world ?s]
    by (simp add: example_props_def)
  moreover have "trace (snd (updateEEVisParams example_world (example_props\<lparr>visParams := Some 3\<rparr>)
      example_props ?f ?s)) = [GetMap 5 (Some 3)]"
    by (simp add: updateEEVisParams_def Let_def called_def setState_def example_props_def example_world_def
        initial_sys_def)
  ultimately show ?thesis by blast
qed

text \<open>
  C1 as stated fails at two inputs. A \<^verbatim>\<open>visParams\<close> object that is deeply equal to the
  previous one but is another object is resolved again, since the guard compares with
  \<open>===\<close>; and with no handle in the state nothing is resolved although the
  \<^verbatim>\<open>visParams\<close> changed.
\<close>

theorem updateEEVisParams_skip_not_as_stated:
  "\<not> resolution_skipped_as_stated example_world (example_props\<lparr>visParams := Some 2\<rparr>) example_props
       \<lparr>dataChanged = False\<rparr> (initial_sys\<lparr>layer := empty_state\<lparr>s_eeObject := Some 5\<rparr>\<rparr>) \<and>
   \<not> resolution_skipped_as_stated example_world (example_props\<lparr>eeObject := PNull, visParams := Some 3\<rparr>)
       (example_props\<lparr>eeObject := PNull\<rparr>) \<lparr>dataChanged = False\<rparr> initial_sys"
proof -
  let ?s = "initial_sys\<lparr>layer := empty_state\<lparr>s_eeObject := Some 5\<rparr>\<rparr>"
  let ?f = "\<lparr>dataChanged = False\<rparr>"
  have "trace (snd (updateEEVisParams example_world (example_props\<lparr>visParams := Some 2\<rparr>) example_props ?f ?s))
      = [GetMap 5 (Some 2)]"
    by (simp add: updateEEVisParams_def Let_def called_def setState_def example_props_def example_world_def
        initial_sys_def)
  moreover have "trace ?s = []"
    by (simp add: initial_sys_def)
  ultimately have "\<not> skipped example_world (example_props\<lparr>visParams := Some 2\<rparr>) example_props ?f ?s"
    unfolding skipped_def by (metis list.distinct(1) snd_conv)
  moreover have "deepEqual example_world (visParams (example_props\<lparr>visParams := Some 2\<rparr>)) (visParams example_props)"
    by (simp add: deepEqual_def example_props_def example_world_def)
  ultimately have 1: "\<not> resolution_skipped_as_stated example_world (example_props\<lparr>visParams := Some 2\<rparr>)
      example_props ?f ?s"
    by (simp add: resolution_skipped_as_stated_def)
  have "skipped example_world (example_props\<lparr>eeObject := PNull, visParams := Some 3\<rparr>)
      (example_props\<lparr>eeObject := PNull\<rparr>) ?f initial_sys"
    by (simp add: skipped_def updateEEVisParams_def initial_sys_def empty_state_def)
  moreover have "\<not> deepEqual example_world (visParams (example_props\<lparr>eeObject := PNull, visParams := Some 3\<rparr>))
      (visParams (example_props\<lparr>eeObject := PNull\<rparr>))"
    by (simp add: deepEqual_def example_props_def example_world_def)
  ultimately have 2: "\<not> resolution_skipped_as_stated example_world
      (example_props\<lparr>eeObject := PNull, visParams := Some 3\<rparr>) (example_props\<lparr>eeObject := PNull\<rparr>) ?f initial_sys"
    by (simp add: resolution_skipped_as_stated_def)
  from 1 2 show ?thesis ..
qed

text \<open>
  What the step does when only the \<^verbatim>\<open>eeObject\<close> prop changes. After a first cycle
  resolved the descriptor of object \<open>5\<close>, a notification that replaces it by object \<open>6\<close>
  with the same \<^verbatim>\<open>visParams\<close> object and no data-changed flag stores the new handle and
  keeps the descriptor of object \<open>5\<close>: the guard of \<^verbatim>\<open>_updateEEVisParams\<close> does not
  look at the handle, and \<^verbatim>\<open>changeFlags.dataChanged\<close> follows the unused \<^verbatim>\<open>data\<close> prop.
\<close>

lemma updateState_first_cycle:
  "updateState example_world example_props (example_props\<lparr>eeObject := PNull\<rparr>) \<lparr>dataChanged = True\<rparr> initial_sys
     = (Inr (), \<lparr>accessToken = Some ''T1'',
                 layer = empty_state\<lparr>s_eeObject := Some 5, mapid := Some ''map-5'',
                   urlFormat := Some ''https://x/{z}/{x}/{y}.png'', renderMethod := Some ImageTiles\<rparr>,
                 trace = [Initialize ''T1'', GetMap 5 (Some 1)]\<rparr>)"
  by (simp add: updateState_def updateToken_def updateEEObject_def updateEEVisParams_def animate_step_def
      called_def setState_def Let_def example_props_def example_world_def initial_sys_def empty_state_def)

lemma updateState_handle_changed:
  "updateState example_world (example_props\<lparr>eeObject := PObject 6\<rparr>) example_props \<lparr>dataChanged = False\<rparr>
     \<lparr>accessToken = Some ''T1'',
      layer = empty_state\<lparr>s_eeObject := Some 5, mapid := Some ''map-5'',
        urlFormat := Some ''https://x/{z}/{x}/{y}.png'', renderMethod := Some ImageTiles\<rparr>,
      trace = []\<rparr>
     = (Inr (), \<lparr>accessToken = Some ''T1'',
                 layer = empty_state\<lparr>s_eeObject := Some 6, mapid := Some ''map-5'',
                   urlFormat := Some ''https://x/{z}/{x}/{y}.png'', renderMethod := Some ImageTiles\<rparr>,
                 trace = []\<rparr>)"
  by (simp add: updateState_def updateToken_def updateEEObject_def updateEEVisParams_def animate_step_def
      called_def setState_def Let_def example_props_def example_world_def initial_sys_def empty_state_def)

end
